theory Spec2Isabelle
  imports Complex_Main "HOL-Library.AList"
begin

section \<open>JavaScript values\<close>

text \<open>
  The repository holds three variants of one Express server for teachers, courses,
  students and tests: an in-memory one backed by JSON files (\<open>v1\<close>), one on MongoDB with
  numeric ids drawn from a counters collection (\<open>v2\<close>), and one on MongoDB with native
  \<open>_id\<close> keys (\<open>v3\<close>).

  A JavaScript number is modelled as an exact rational, or one of the three special values
  \<open>NaN\<close>, \<open>Infinity\<close> and \<open>-Infinity\<close>. Rounding, overflow and the sign of zero are outside
  the model.
\<close>

datatype jsnum = Fin rat | NaN | PInf | NInf

text \<open>
  The property values of a request body and of a stored record: the JSON scalars, and
  \<open>undefined\<close> for a property that is absent. \<open>ObjId\<close> is a MongoDB ObjectId (variant 3).
  Arrays and nested objects as property values are outside the model.
\<close>

datatype jsval = Undefined | Null | Bool bool | Num jsnum | Str string | ObjId string

text \<open>\<open>!v\<close>: the values JavaScript treats as false.\<close>

fun falsy :: "jsval \<Rightarrow> bool" where
  "falsy Undefined = True"
| "falsy Null = True"
| "falsy (Bool b) = (b = False)"
| "falsy (Num n) = (n = Fin 0 \<or> n = NaN)"
| "falsy (Str s) = (s = [])"
| "falsy (ObjId k) = False"

text \<open>
  \<open>Number(v)\<close>. The numeric value of a string is the language's own parser, which is not
  part of the repository: it is the parameter \<open>N\<close> of every function that coerces.
\<close>

fun to_number :: "(string \<Rightarrow> jsnum) \<Rightarrow> jsval \<Rightarrow> jsnum" where
  "to_number N Undefined = NaN"
| "to_number N Null = Fin 0"
| "to_number N (Bool b) = (if b then Fin 1 else Fin 0)"
| "to_number N (Num n) = n"
| "to_number N (Str s) = N s"
| "to_number N (ObjId k) = NaN"

text \<open>\<open>a === b\<close> on the scalars: \<open>NaN\<close> is equal to nothing, itself included.\<close>

fun strict_eq :: "jsval \<Rightarrow> jsval \<Rightarrow> bool" where
  "strict_eq (Num a) (Num b) = (a = b \<and> a \<noteq> NaN)"
| "strict_eq a b = (a = b)"

text \<open>The arithmetic the handlers use: \<open>+\<close>, \<open>*\<close>, \<open>/\<close> and \<open>Math.max\<close>.\<close>

fun js_add :: "jsnum \<Rightarrow> jsnum \<Rightarrow> jsnum" where
  "js_add (Fin a) (Fin b) = Fin (a + b)"
| "js_add NaN b = NaN"
| "js_add a NaN = NaN"
| "js_add PInf NInf = NaN"
| "js_add NInf PInf = NaN"
| "js_add PInf b = PInf"
| "js_add a PInf = PInf"
| "js_add NInf b = NInf"
| "js_add a NInf = NInf"

fun js_mul :: "jsnum \<Rightarrow> jsnum \<Rightarrow> jsnum" where
  "js_mul (Fin a) (Fin b) = Fin (a * b)"
| "js_mul NaN b = NaN"
| "js_mul a NaN = NaN"
| "js_mul PInf (Fin b) = (if b = 0 then NaN else if 0 < b then PInf else NInf)"
| "js_mul NInf (Fin b) = (if b = 0 then NaN else if 0 < b then NInf else PInf)"
| "js_mul (Fin a) PInf = (if a = 0 then NaN else if 0 < a then PInf else NInf)"
| "js_mul (Fin a) NInf = (if a = 0 then NaN else if 0 < a then NInf else PInf)"
| "js_mul PInf PInf = PInf"
| "js_mul NInf NInf = PInf"
| "js_mul PInf NInf = NInf"
| "js_mul NInf PInf = NInf"

fun js_div :: "jsnum \<Rightarrow> jsnum \<Rightarrow> jsnum" where
  "js_div (Fin a) (Fin b) =
     (if b \<noteq> 0 then Fin (a / b)
      else if a = 0 then NaN else if 0 < a then PInf else NInf)"
| "js_div NaN b = NaN"
| "js_div a NaN = NaN"
| "js_div (Fin a) PInf = Fin 0"
| "js_div (Fin a) NInf = Fin 0"
| "js_div PInf (Fin b) = (if 0 \<le> b then PInf else NInf)"
| "js_div NInf (Fin b) = (if 0 \<le> b then NInf else PInf)"
| "js_div PInf PInf = NaN"
| "js_div PInf NInf = NaN"
| "js_div NInf PInf = NaN"
| "js_div NInf NInf = NaN"

fun js_max :: "jsnum \<Rightarrow> jsnum \<Rightarrow> jsnum" where
  "js_max (Fin a) (Fin b) = Fin (max a b)"
| "js_max NaN b = NaN"
| "js_max a NaN = NaN"
| "js_max PInf b = PInf"
| "js_max a PInf = PInf"
| "js_max NInf b = b"
| "js_max a NInf = a"

section \<open>Objects, collections and replies\<close>

text \<open>
  The property names the handlers read and write. \<open>IdK\<close> is \<open>id\<close>, \<open>OidK\<close> is \<open>_id\<close> and
  \<open>ErrorK\<close> is \<open>error\<close>; the others are spelled as in the source, capitalised.
\<close>

datatype field =
    IdK | OidK | FirstName | LastName | Email | Department
  | Code | Name | TeacherId | Semester | Room | Schedule
  | Grade | StudentNumber | Homeroom
  | StudentId | CourseId | TestName | Date | Mark | OutOf | Weight
  | TestCount | Average | ErrorK

text \<open>
  An object is the list of its properties. Reading a property that is absent gives
  \<open>undefined\<close>; an assignment replaces the property or appends it.
\<close>

type_synonym obj = "(field \<times> jsval) list"

definition get :: "obj \<Rightarrow> field \<Rightarrow> jsval" where
  "get d f = (case map_of d f of None \<Rightarrow> Undefined | Some v \<Rightarrow> v)"

definition put :: "field \<Rightarrow> jsval \<Rightarrow> obj \<Rightarrow> obj" where
  "put f v d = AList.update f v d"

text \<open>\<open>if (v !== undefined) d.f = v\<close>.\<close>

definition assign :: "field \<Rightarrow> jsval \<Rightarrow> obj \<Rightarrow> obj" where
  "assign f v d = (if v \<noteq> Undefined then put f v d else d)"

text \<open>\<open>xs.findIndex(p)\<close>, with \<open>None\<close> for \<open>-1\<close>.\<close>

fun findIndex :: "('a \<Rightarrow> bool) \<Rightarrow> 'a list \<Rightarrow> nat option" where
  "findIndex p [] = None"
| "findIndex p (x # xs) =
     (if p x then Some 0 else map_option Suc (findIndex p xs))"

text \<open>\<open>xs.splice(i, 1)\<close>: the list without its element at \<open>i\<close>.\<close>

definition splice1 :: "nat \<Rightarrow> 'a list \<Rightarrow> 'a list" where
  "splice1 i xs = take i xs @ drop (Suc i) xs"

text \<open>
  What a handler sends: a status and a JSON body (one object or an array of objects), or
  nothing at all when it returns without calling \<open>res.json\<close>.
\<close>

datatype json = One obj | Many "obj list"

datatype response = Reply nat json | NoReply

text \<open>\<open>res.status(code).json({ error: msg })\<close>.\<close>

definition fail :: "nat \<Rightarrow> string \<Rightarrow> response" where
  "fail code msg = Reply code (One [(ErrorK, Str msg)])"

text \<open>The four collections.\<close>

record db =
  teachers :: "obj list"
  courses :: "obj list"
  students :: "obj list"
  tests :: "obj list"

section \<open>Averages\<close>

text \<open>
  \<open>xs.map(t => (t.mark / t.outOf) * 100)\<close> and
  \<open>percent.reduce((x, y) => x + y, 0) / percent.length\<close>, as all three variants write them.
  The operands of \<open>/\<close> are coerced to numbers.
\<close>

definition percentages :: "(string \<Rightarrow> jsnum) \<Rightarrow> obj list \<Rightarrow> jsnum list" where
  "percentages N ts =
     map (\<lambda>t. js_mul (js_div (to_number N (get t Mark)) (to_number N (get t OutOf))) (Fin 100)) ts"

definition average_of :: "jsnum list \<Rightarrow> jsnum" where
  "average_of ps = js_div (foldl js_add (Fin 0) ps) (Fin (of_nat (length ps)))"

section \<open>Variant 1: arrays in memory, saved to JSON files\<close>

text \<open>
  The state of variant 1: the four arrays in memory, the four files as last written by
  \<open>saveJson\<close>, and the four \<open>next...Id\<close> counters.
\<close>

record v1_state =
  mem :: db
  disk :: db
  nextTeachersId :: jsnum
  nextCoursesId :: jsnum
  nextStudentsId :: jsnum
  nextTestsId :: jsnum

text \<open>\<open>xs.reduce((max, t) => Math.max(max, t.id), 0) + 1\<close>, and the state at start-up.\<close>

definition next_after :: "(string \<Rightarrow> jsnum) \<Rightarrow> obj list \<Rightarrow> jsnum" where
  "next_after N xs =
     js_add (foldl (\<lambda>m t. js_max m (to_number N (get t IdK))) (Fin 0) xs) (Fin 1)"

definition v1_start :: "(string \<Rightarrow> jsnum) \<Rightarrow> db \<Rightarrow> v1_state" where
  "v1_start N files =
     \<lparr>mem = files, disk = files,
      nextTeachersId = next_after N (teachers files),
      nextCoursesId = next_after N (courses files),
      nextStudentsId = next_after N (students files),
      nextTestsId = next_after N (tests files)\<rparr>"

text \<open>\<open>t => t.id === id\<close>.\<close>

definition has_id :: "jsnum \<Rightarrow> obj \<Rightarrow> bool" where
  "has_id n t = strict_eq (get t IdK) (Num n)"

text \<open>\<open>if (v !== undefined) d.f = Number(v)\<close>.\<close>

definition assign_number :: "(string \<Rightarrow> jsnum) \<Rightarrow> field \<Rightarrow> jsval \<Rightarrow> obj \<Rightarrow> obj" where
  "assign_number N f v d = (if v \<noteq> Undefined then put f (Num (to_number N v)) d else d)"

subsection \<open>Teachers\<close>

text \<open>\<open>GET /teachers\<close>: the body of the handler is commented out, nothing is sent.\<close>

definition v1_get_teachers :: "v1_state \<Rightarrow> response \<times> v1_state" where
  "v1_get_teachers st = (NoReply, st)"



definition v1_put_teacher ::
  "(string \<Rightarrow> jsnum) \<Rightarrow> string \<Rightarrow> obj \<Rightarrow> v1_state \<Rightarrow> response \<times> v1_state" where
  "v1_put_teacher N pid b st =
     (let id = N pid in
      case findIndex (has_id id) (teachers (mem st)) of
        None \<Rightarrow> (fail 404 ''Teacher not found'', st)
      | Some i \<Rightarrow>
          let firstName = get b FirstName; lastName = get b LastName;
              email = get b Email; department = get b Department in
          if falsy firstName \<and> falsy lastName \<and> falsy email \<and> falsy department
          then (fail 400 ''No fields provided to update'', st)
          else
            let teacher = assign Department department (assign Email email
                            (assign LastName lastName (assign FirstName firstName
                              (teachers (mem st) ! i))));
                teachers' = (teachers (mem st))[i := teacher]
            in (Reply 200 (One teacher),
                st\<lparr>mem := (mem st)\<lparr>teachers := teachers'\<rparr>,
                   disk := (disk st)\<lparr>teachers := teachers'\<rparr>\<rparr>))"

text \<open>\<open>DELETE /teachers/:id\<close>: the check for courses of the teacher is a TODO comment.\<close>

definition v1_delete_teacher ::
  "(string \<Rightarrow> jsnum) \<Rightarrow> string \<Rightarrow> v1_state \<Rightarrow> response \<times> v1_state" where
  "v1_delete_teacher N pid st =
     (let id = N pid in
      case findIndex (has_id id) (teachers (mem st)) of
        None \<Rightarrow> (fail 404 ''Teacher not found'', st)
      | Some index \<Rightarrow>
          let deleted = teachers (mem st) ! index;
              teachers' = splice1 index (teachers (mem st))
          in (Reply 200 (One deleted),
              st\<lparr>mem := (mem st)\<lparr>teachers := teachers'\<rparr>,
                 disk := (disk st)\<lparr>teachers := teachers'\<rparr>\<rparr>))"

subsection \<open>Courses\<close>

definition v1_get_courses :: "v1_state \<Rightarrow> response \<times> v1_state" where
  "v1_get_courses st = (Reply 200 (Many (courses (mem st))), st)"



definition v1_put_course ::
  "(string \<Rightarrow> jsnum) \<Rightarrow> string \<Rightarrow> obj \<Rightarrow> v1_state \<Rightarrow> response \<times> v1_state" where
  "v1_put_course N pid b st =
     (let id = N pid in
      case findIndex (has_id id) (courses (mem st)) of
        None \<Rightarrow> (fail 404 ''Course not found'', st)
      | Some i \<Rightarrow>
          let code = get b Code; name = get b Name; teacherId = get b TeacherId;
              semester = get b Semester; room = get b Room in
          if falsy code \<and> falsy name \<and> falsy teacherId \<and> falsy semester \<and> falsy room
          then (fail 400 ''No fields provided to update'', st)
          else if teacherId \<noteq> Undefined \<and>
                  find (has_id (to_number N teacherId)) (teachers (mem st)) = None
          then (fail 400 ''teacherId is invalid!'', st)
          else
            let course = assign Room room (assign Semester semester (assign Name name
                           (assign Code code (assign_number N TeacherId teacherId
                             (courses (mem st) ! i)))));
                courses' = (courses (mem st))[i := course]
            in (Reply 200 (One course),
                st\<lparr>mem := (mem st)\<lparr>courses := courses'\<rparr>,
                   disk := (disk st)\<lparr>courses := courses'\<rparr>\<rparr>))"

definition v1_delete_course ::
  "(string \<Rightarrow> jsnum) \<Rightarrow> string \<Rightarrow> v1_state \<Rightarrow> response \<times> v1_state" where
  "v1_delete_course N pid st =
     (let id = N pid in
      case findIndex (has_id id) (courses (mem st)) of
        None \<Rightarrow> (fail 404 ''Course not found'', st)
      | Some index \<Rightarrow>
          let deleted = courses (mem st) ! index;
              courses' = splice1 index (courses (mem st))
          in (Reply 200 (One deleted),
              st\<lparr>mem := (mem st)\<lparr>courses := courses'\<rparr>,
                 disk := (disk st)\<lparr>courses := courses'\<rparr>\<rparr>))"

subsection \<open>Students\<close>

definition v1_get_students :: "v1_state \<Rightarrow> response \<times> v1_state" where
  "v1_get_students st = (Reply 200 (Many (students (mem st))), st)"



definition v1_put_student ::
  "(string \<Rightarrow> jsnum) \<Rightarrow> string \<Rightarrow> obj \<Rightarrow> v1_state \<Rightarrow> response \<times> v1_state" where
  "v1_put_student N pid b st =
     (let id = N pid in
      case findIndex (has_id id) (students (mem st)) of
        None \<Rightarrow> (fail 404 ''Student not found'', st)
      | Some i \<Rightarrow>
          let firstName = get b FirstName; lastName = get b LastName; grade = get b Grade;
              studentNumber = get b StudentNumber; homeroom = get b Homeroom in
          if falsy firstName \<and> falsy lastName \<and> falsy grade \<and> falsy studentNumber
          then (fail 400 ''No fields provided to update'', st)
          else
            let student = assign Homeroom homeroom (assign StudentNumber studentNumber
                            (assign Grade grade (assign LastName lastName
                              (assign FirstName firstName (students (mem st) ! i)))));
                students' = (students (mem st))[i := student]
            in (Reply 200 (One student),
                st\<lparr>mem := (mem st)\<lparr>students := students'\<rparr>,
                   disk := (disk st)\<lparr>students := students'\<rparr>\<rparr>))"

definition v1_delete_student ::
  "(string \<Rightarrow> jsnum) \<Rightarrow> string \<Rightarrow> v1_state \<Rightarrow> response \<times> v1_state" where
  "v1_delete_student N pid st =
     (let id = N pid in
      case findIndex (has_id id) (students (mem st)) of
        None \<Rightarrow> (fail 404 ''Student not found'', st)
      | Some index \<Rightarrow>
          let deleted = students (mem st) ! index;
              students' = splice1 index (students (mem st))
          in (Reply 200 (One deleted),
              st\<lparr>mem := (mem st)\<lparr>students := students'\<rparr>,
                 disk := (disk st)\<lparr>students := students'\<rparr>\<rparr>))"

subsection \<open>Tests\<close>

definition v1_get_tests :: "v1_state \<Rightarrow> response \<times> v1_state" where
  "v1_get_tests st = (Reply 200 (Many (tests (mem st))), st)"



text \<open>
  \<open>PUT /tests/:id\<close> changes the test object of the array as it goes: when the \<open>courseId\<close>
  check fails after a \<open>studentId\<close> was accepted, the array in memory already holds the new
  \<open>studentId\<close>, and only the file is left as it was.
\<close>

definition v1_put_test ::
  "(string \<Rightarrow> jsnum) \<Rightarrow> string \<Rightarrow> obj \<Rightarrow> v1_state \<Rightarrow> response \<times> v1_state" where
  "v1_put_test N pid b st =
     (let id = N pid in
      case findIndex (has_id id) (tests (mem st)) of
        None \<Rightarrow> (fail 404 ''Test not found'', st)
      | Some i \<Rightarrow>
          let studentId = get b StudentId; courseId = get b CourseId;
              testName = get b TestName; date = get b Date;
              mark = get b Mark; outOf = get b OutOf; weight = get b Weight in
          if falsy studentId \<and> falsy courseId \<and> falsy testName \<and> falsy date \<and>
             mark = Undefined \<and> outOf = Undefined \<and> weight = Undefined
          then (fail 400 ''No fields provided to update'', st)
          else if studentId \<noteq> Undefined \<and>
                  list_ex (has_id (to_number N studentId)) (students (mem st)) = False
          then (fail 400 ''studentId is invalid!'', st)
          else
            let test1 = assign_number N StudentId studentId (tests (mem st) ! i) in
            if courseId \<noteq> Undefined \<and>
               list_ex (has_id (to_number N courseId)) (courses (mem st)) = False
            then (fail 400 ''courseId is invalid!'',
                  st\<lparr>mem := (mem st)\<lparr>tests := (tests (mem st))[i := test1]\<rparr>\<rparr>)
            else
              let test = assign_number N Weight weight (assign_number N OutOf outOf
                           (assign_number N Mark mark (assign Date date
                             (assign TestName testName
                               (assign_number N CourseId courseId test1)))));
                  tests' = (tests (mem st))[i := test]
              in (Reply 200 (One test),
                  st\<lparr>mem := (mem st)\<lparr>tests := tests'\<rparr>,
                     disk := (disk st)\<lparr>tests := tests'\<rparr>\<rparr>))"

definition v1_delete_test ::
  "(string \<Rightarrow> jsnum) \<Rightarrow> string \<Rightarrow> v1_state \<Rightarrow> response \<times> v1_state" where
  "v1_delete_test N pid st =
     (let id = N pid in
      case findIndex (has_id id) (tests (mem st)) of
        None \<Rightarrow> (fail 404 ''Test not found'', st)
      | Some index \<Rightarrow>
          let deleted = tests (mem st) ! index;
              tests' = splice1 index (tests (mem st))
          in (Reply 200 (One deleted),
              st\<lparr>mem := (mem st)\<lparr>tests := tests'\<rparr>,
                 disk := (disk st)\<lparr>tests := tests'\<rparr>\<rparr>))"


section \<open>Variant 2: MongoDB with numeric ids from a counters collection\<close>

text \<open>
  The database is the external collaborator of variants 2 and 3. A collection is modelled
  as the list of its documents in insertion order; a query filter \<open>{ f: v }\<close> selects the
  documents whose property \<open>f\<close> equals \<open>v\<close>; \<open>create\<close> appends a document, \<open>save\<close> replaces
  the document that was found, \<open>findOneAndDelete\<close> removes it. Schema casting and
  validation by the driver, store failures, the \<open>_id\<close> and version properties the driver
  adds to the documents of variant 2, and timestamps are outside the model.

  The state of variant 2: the four collections and the \<open>counters\<close> collection, one
  \<open>seq\<close> per sequence name.
\<close>

record v2_state =
  store :: db
  counters :: "(string \<times> int) list"


text \<open>The filter \<open>{ f: v }\<close>.\<close>

definition eq_filter :: "field \<Rightarrow> jsval \<Rightarrow> obj \<Rightarrow> bool" where
  "eq_filter f v d = (get d f = v)"

text \<open>
  \<open>.sort({ id: 1 })\<close>: ascending in the numeric \<open>id\<close> the schema requires of every
  document (documents without a finite numeric \<open>id\<close> are ranked as \<open>0\<close>).
\<close>

fun id_rank :: "jsval \<Rightarrow> rat" where
  "id_rank (Num (Fin r)) = r"
| "id_rank v = 0"

definition sort_by_id :: "obj list \<Rightarrow> obj list" where
  "sort_by_id xs = sort_key (\<lambda>d. id_rank (get d IdK)) xs"


subsection \<open>Teachers\<close>

definition v2_get_teachers :: "v2_state \<Rightarrow> response \<times> v2_state" where
  "v2_get_teachers st = (Reply 200 (Many (sort_by_id (teachers (store st)))), st)"



definition v2_put_teacher ::
  "(string \<Rightarrow> jsnum) \<Rightarrow> string \<Rightarrow> obj \<Rightarrow> v2_state \<Rightarrow> response \<times> v2_state" where
  "v2_put_teacher N pid b st =
     (let id = N pid;
          firstName = get b FirstName; lastName = get b LastName;
          email = get b Email; department = get b Department in
      if firstName = Undefined \<and> lastName = Undefined \<and> email = Undefined \<and>
         department = Undefined
      then (fail 400 ''No fields provided to update'', st)
      else
        case findIndex (eq_filter IdK (Num id)) (teachers (store st)) of
          None \<Rightarrow> (fail 404 ''Teacher not found'', st)
        | Some i \<Rightarrow>
            let teacher = assign Department department (assign Email email
                            (assign LastName lastName (assign FirstName firstName
                              (teachers (store st) ! i))))
            in (Reply 200 (One teacher),
                st\<lparr>store := (store st)\<lparr>teachers := (teachers (store st))[i := teacher]\<rparr>\<rparr>))"

definition v2_delete_teacher ::
  "(string \<Rightarrow> jsnum) \<Rightarrow> string \<Rightarrow> v2_state \<Rightarrow> response \<times> v2_state" where
  "v2_delete_teacher N pid st =
     (let id = N pid;
          used = list_ex (eq_filter TeacherId (Num id)) (courses (store st)) in
      if used
      then (fail 400
             ''Cannot delete teacher who is assigned to courses. Update/delete courses first.'',
            st)
      else
        case findIndex (eq_filter IdK (Num id)) (teachers (store st)) of
          None \<Rightarrow> (fail 404 ''Teacher not found'', st)
        | Some i \<Rightarrow>
            (Reply 200 (One (teachers (store st) ! i)),
             st\<lparr>store := (store st)\<lparr>teachers := splice1 i (teachers (store st))\<rparr>\<rparr>))"

subsection \<open>Courses\<close>

definition v2_get_courses :: "v2_state \<Rightarrow> response \<times> v2_state" where
  "v2_get_courses st = (Reply 200 (Many (sort_by_id (courses (store st)))), st)"



definition v2_put_course ::
  "(string \<Rightarrow> jsnum) \<Rightarrow> string \<Rightarrow> obj \<Rightarrow> v2_state \<Rightarrow> response \<times> v2_state" where
  "v2_put_course N pid b st =
     (let id = N pid;
          code = get b Code; name = get b Name; teacherId = get b TeacherId;
          semester = get b Semester; room = get b Room; schedule = get b Schedule in
      if code = Undefined \<and> name = Undefined \<and> teacherId = Undefined \<and>
         semester = Undefined \<and> room = Undefined \<and> schedule = Undefined
      then (fail 400 ''No fields provided to update'', st)
      else
        case findIndex (eq_filter IdK (Num id)) (courses (store st)) of
          None \<Rightarrow> (fail 404 ''Course not found'', st)
        | Some i \<Rightarrow>
            if teacherId \<noteq> Undefined \<and>
               find (eq_filter IdK (Num (to_number N teacherId))) (teachers (store st)) = None
            then (fail 400 ''teacherId is invalid!'', st)
            else
              let course = assign Schedule schedule (assign Room room
                             (assign Semester semester (assign Name name (assign Code code
                               (assign_number N TeacherId teacherId
                                 (courses (store st) ! i))))))
              in (Reply 200 (One course),
                  st\<lparr>store := (store st)\<lparr>courses := (courses (store st))[i := course]\<rparr>\<rparr>))"

definition v2_delete_course ::
  "(string \<Rightarrow> jsnum) \<Rightarrow> string \<Rightarrow> v2_state \<Rightarrow> response \<times> v2_state" where
  "v2_delete_course N pid st =
     (let id = N pid;
          used = list_ex (eq_filter CourseId (Num id)) (tests (store st)) in
      if used
      then (fail 400 ''Cannot delete course that has tests. Delete/update tests first.'', st)
      else
        case findIndex (eq_filter IdK (Num id)) (courses (store st)) of
          None \<Rightarrow> (fail 404 ''Course not found'', st)
        | Some i \<Rightarrow>
            (Reply 200 (One (courses (store st) ! i)),
             st\<lparr>store := (store st)\<lparr>courses := splice1 i (courses (store st))\<rparr>\<rparr>))"

subsection \<open>Students\<close>

definition v2_get_students :: "v2_state \<Rightarrow> response \<times> v2_state" where
  "v2_get_students st = (Reply 200 (Many (sort_by_id (students (store st)))), st)"



definition v2_put_student ::
  "(string \<Rightarrow> jsnum) \<Rightarrow> string \<Rightarrow> obj \<Rightarrow> v2_state \<Rightarrow> response \<times> v2_state" where
  "v2_put_student N pid b st =
     (let id = N pid;
          firstName = get b FirstName; lastName = get b LastName; grade = get b Grade;
          studentNumber = get b StudentNumber; homeroom = get b Homeroom in
      if firstName = Undefined \<and> lastName = Undefined \<and> grade = Undefined \<and>
         studentNumber = Undefined \<and> homeroom = Undefined
      then (fail 400 ''No fields provided to update'', st)
      else
        case findIndex (eq_filter IdK (Num id)) (students (store st)) of
          None \<Rightarrow> (fail 404 ''Student not found'', st)
        | Some i \<Rightarrow>
            let student = assign Homeroom homeroom (assign StudentNumber studentNumber
                            (assign_number N Grade grade (assign LastName lastName
                              (assign FirstName firstName (students (store st) ! i)))))
            in (Reply 200 (One student),
                st\<lparr>store := (store st)\<lparr>students := (students (store st))[i := student]\<rparr>\<rparr>))"

definition v2_delete_student ::
  "(string \<Rightarrow> jsnum) \<Rightarrow> string \<Rightarrow> v2_state \<Rightarrow> response \<times> v2_state" where
  "v2_delete_student N pid st =
     (let id = N pid;
          used = list_ex (eq_filter StudentId (Num id)) (tests (store st)) in
      if used
      then (fail 400 ''Cannot delete student that has tests. Delete/update tests first.'', st)
      else
        case findIndex (eq_filter IdK (Num id)) (students (store st)) of
          None \<Rightarrow> (fail 404 ''Student not found'', st)
        | Some i \<Rightarrow>
            (Reply 200 (One (students (store st) ! i)),
             st\<lparr>store := (store st)\<lparr>students := splice1 i (students (store st))\<rparr>\<rparr>))"

subsection \<open>Tests\<close>

definition v2_get_tests :: "v2_state \<Rightarrow> response \<times> v2_state" where
  "v2_get_tests st = (Reply 200 (Many (sort_by_id (tests (store st)))), st)"



definition v2_put_test ::
  "(string \<Rightarrow> jsnum) \<Rightarrow> string \<Rightarrow> obj \<Rightarrow> v2_state \<Rightarrow> response \<times> v2_state" where
  "v2_put_test N pid b st =
     (let id = N pid;
          studentId = get b StudentId; courseId = get b CourseId;
          testName = get b TestName; date = get b Date;
          mark = get b Mark; outOf = get b OutOf; weight = get b Weight in
      if studentId = Undefined \<and> courseId = Undefined \<and> testName = Undefined \<and>
         date = Undefined \<and> mark = Undefined \<and> outOf = Undefined \<and> weight = Undefined
      then (fail 400 ''No fields provided to update'', st)
      else
        case findIndex (eq_filter IdK (Num id)) (tests (store st)) of
          None \<Rightarrow> (fail 404 ''Test not found'', st)
        | Some i \<Rightarrow>
            if studentId \<noteq> Undefined \<and>
               list_ex (eq_filter IdK (Num (to_number N studentId))) (students (store st)) = False
            then (fail 400 ''studentId is invalid!'', st)
            else if courseId \<noteq> Undefined \<and>
               list_ex (eq_filter IdK (Num (to_number N courseId))) (courses (store st)) = False
            then (fail 400 ''courseId is invalid!'', st)
            else
              let test = assign_number N Weight weight (assign_number N OutOf outOf
                           (assign_number N Mark mark (assign Date date
                             (assign TestName testName
                               (assign_number N CourseId courseId
                                 (assign_number N StudentId studentId
                                   (tests (store st) ! i)))))))
              in (Reply 200 (One test),
                  st\<lparr>store := (store st)\<lparr>tests := (tests (store st))[i := test]\<rparr>\<rparr>))"

definition v2_delete_test ::
  "(string \<Rightarrow> jsnum) \<Rightarrow> string \<Rightarrow> v2_state \<Rightarrow> response \<times> v2_state" where
  "v2_delete_test N pid st =
     (let id = N pid in
      case findIndex (eq_filter IdK (Num id)) (tests (store st)) of
        None \<Rightarrow> (fail 404 ''Test not found'', st)
      | Some i \<Rightarrow>
          (Reply 200 (One (tests (store st) ! i)),
           st\<lparr>store := (store st)\<lparr>tests := splice1 i (tests (store st))\<rparr>\<rparr>))"

subsection \<open>Tests of a student or a course, and averages\<close>

definition v2_student_tests ::
  "(string \<Rightarrow> jsnum) \<Rightarrow> string \<Rightarrow> v2_state \<Rightarrow> response \<times> v2_state" where
  "v2_student_tests N pid st =
     (let studentId = N pid in
      case find (eq_filter IdK (Num studentId)) (students (store st)) of
        None \<Rightarrow> (fail 404 ''Student not found'', st)
      | Some student \<Rightarrow>
          (Reply 200 (Many (sort_by_id
             (filter (eq_filter StudentId (Num studentId)) (tests (store st))))), st))"

definition v2_course_tests ::
  "(string \<Rightarrow> jsnum) \<Rightarrow> string \<Rightarrow> v2_state \<Rightarrow> response \<times> v2_state" where
  "v2_course_tests N pid st =
     (let courseId = N pid in
      case find (eq_filter IdK (Num courseId)) (courses (store st)) of
        None \<Rightarrow> (fail 404 ''Course not found'', st)
      | Some course \<Rightarrow>
          (Reply 200 (Many (sort_by_id
             (filter (eq_filter CourseId (Num courseId)) (tests (store st))))), st))"


definition v2_course_average ::
  "(string \<Rightarrow> jsnum) \<Rightarrow> string \<Rightarrow> v2_state \<Rightarrow> response \<times> v2_state" where
  "v2_course_average N pid st =
     (let courseId = N pid in
      case find (eq_filter IdK (Num courseId)) (courses (store st)) of
        None \<Rightarrow> (fail 404 ''Course not found'', st)
      | Some course \<Rightarrow>
          let courseTests = filter (eq_filter CourseId (Num courseId)) (tests (store st)) in
          if length courseTests = 0
          then (Reply 200 (One [(CourseId, Num courseId), (TestCount, Num (Fin 0)),
                                (Average, Null)]), st)
          else
            let percentages = percentages N courseTests;
                avg = average_of percentages
            in (Reply 200 (One [(CourseId, Num courseId),
                                (TestCount, Num (Fin (of_nat (length courseTests)))),
                                (Average, Num avg)]), st))"

section \<open>Variant 3: MongoDB with native keys\<close>

text \<open>
  In variant 3 a document is found by its \<open>_id\<close>, an ObjectId. Two things belong to the
  driver and are parameters: \<open>oid v\<close> is the ObjectId the value \<open>v\<close> casts to, or \<open>None\<close>
  when \<open>mongoose.isValidObjectId(v)\<close> is false; and the key the store gives to a created
  document, \<open>newId\<close>. The state is the four collections. The handlers for tests and for
  the two averages are modelled.
\<close>

text \<open>\<open>requireObjectId(id, res, label)\<close>: the 400 reply it sends when the id is not valid.\<close>

definition requireObjectId ::
  "(jsval \<Rightarrow> string option) \<Rightarrow> string \<Rightarrow> string \<Rightarrow> response option" where
  "requireObjectId oid pid label =
     (if oid (Str pid) = None then Some (fail 400 (''Invalid '' @ label)) else None)"


text \<open>\<open>if (v !== undefined) d.f = v\<close> for a reference: the document holds the ObjectId.\<close>

definition assign_ref :: "(jsval \<Rightarrow> string option) \<Rightarrow> field \<Rightarrow> jsval \<Rightarrow> obj \<Rightarrow> obj" where
  "assign_ref oid f v d = (if v \<noteq> Undefined then put f (ObjId (the (oid v))) d else d)"

definition v3_put_test ::
  "(string \<Rightarrow> jsnum) \<Rightarrow> (jsval \<Rightarrow> string option) \<Rightarrow> string \<Rightarrow> obj \<Rightarrow> db \<Rightarrow> response \<times> db" where
  "v3_put_test N oid pid b st =
     (case requireObjectId oid pid ''test _id'' of
        Some r \<Rightarrow> (r, st)
      | None \<Rightarrow>
       (let studentId = get b StudentId; courseId = get b CourseId;
            testName = get b TestName; date = get b Date;
            mark = get b Mark; outOf = get b OutOf; weight = get b Weight in
        if studentId = Undefined \<and> courseId = Undefined \<and> testName = Undefined \<and>
           date = Undefined \<and> mark = Undefined \<and> outOf = Undefined \<and> weight = Undefined
        then (fail 400 ''No fields provided to update'', st)
        else
          case findIndex (eq_filter OidK (ObjId (the (oid (Str pid))))) (tests st) of
            None \<Rightarrow> (fail 404 ''Test not found'', st)
          | Some i \<Rightarrow>
              if studentId \<noteq> Undefined \<and> oid studentId = None
              then (fail 400 ''Invalid studentId'', st)
              else if studentId \<noteq> Undefined \<and>
                 list_ex (eq_filter OidK (ObjId (the (oid studentId)))) (students st) = False
              then (fail 400 ''studentId does not exist'', st)
              else if courseId \<noteq> Undefined \<and> oid courseId = None
              then (fail 400 ''Invalid courseId'', st)
              else if courseId \<noteq> Undefined \<and>
                 list_ex (eq_filter OidK (ObjId (the (oid courseId)))) (courses st) = False
              then (fail 400 ''courseId does not exist'', st)
              else
                let test = assign_number N Weight weight (assign_number N OutOf outOf
                             (assign_number N Mark mark (assign Date date
                               (assign TestName testName
                                 (assign_ref oid CourseId courseId
                                   (assign_ref oid StudentId studentId (tests st ! i)))))))
                in (Reply 200 (One test), st\<lparr>tests := (tests st)[i := test]\<rparr>)))"


definition v3_course_average ::
  "(string \<Rightarrow> jsnum) \<Rightarrow> (jsval \<Rightarrow> string option) \<Rightarrow> string \<Rightarrow> db \<Rightarrow> response \<times> db" where
  "v3_course_average N oid pid st =
     (case requireObjectId oid pid ''course _id'' of
        Some r \<Rightarrow> (r, st)
      | None \<Rightarrow>
       (case find (eq_filter OidK (ObjId (the (oid (Str pid))))) (courses st) of
          None \<Rightarrow> (fail 404 ''Course not found'', st)
        | Some course \<Rightarrow>
            let courseTests =
                  filter (eq_filter CourseId (ObjId (the (oid (Str pid))))) (tests st) in
            if length courseTests = 0
            then (Reply 200 (One [(CourseId, Str pid), (TestCount, Num (Fin 0)),
                                  (Average, Null)]), st)
            else
              let avg = average_of (percentages N courseTests)
              in (Reply 200 (One [(CourseId, Str pid),
                                  (TestCount, Num (Fin (of_nat (length courseTests)))),
                                  (Average, Num avg)]), st)))"

section \<open>The operations by entity kind\<close>

datatype kind = Teacher | Course | Student | Test

fun coll :: "kind \<Rightarrow> db \<Rightarrow> obj list" where
  "coll Teacher = teachers"
| "coll Course = courses"
| "coll Student = students"
| "coll Test = tests"

fun v1_list :: "kind \<Rightarrow> v1_state \<Rightarrow> response \<times> v1_state" where
  "v1_list Teacher = v1_get_teachers"
| "v1_list Course = v1_get_courses"
| "v1_list Student = v1_get_students"
| "v1_list Test = v1_get_tests"



fun v1_update ::
  "(string \<Rightarrow> jsnum) \<Rightarrow> kind \<Rightarrow> string \<Rightarrow> obj \<Rightarrow> v1_state \<Rightarrow> response \<times> v1_state" where
  "v1_update N Teacher = v1_put_teacher N"
| "v1_update N Course = v1_put_course N"
| "v1_update N Student = v1_put_student N"
| "v1_update N Test = v1_put_test N"

fun v1_delete :: "(string \<Rightarrow> jsnum) \<Rightarrow> kind \<Rightarrow> string \<Rightarrow> v1_state \<Rightarrow> response \<times> v1_state" where
  "v1_delete N Teacher = v1_delete_teacher N"
| "v1_delete N Course = v1_delete_course N"
| "v1_delete N Student = v1_delete_student N"
| "v1_delete N Test = v1_delete_test N"

fun v2_list :: "kind \<Rightarrow> v2_state \<Rightarrow> response \<times> v2_state" where
  "v2_list Teacher = v2_get_teachers"
| "v2_list Course = v2_get_courses"
| "v2_list Student = v2_get_students"
| "v2_list Test = v2_get_tests"



fun v2_update ::
  "(string \<Rightarrow> jsnum) \<Rightarrow> kind \<Rightarrow> string \<Rightarrow> obj \<Rightarrow> v2_state \<Rightarrow> response \<times> v2_state" where
  "v2_update N Teacher = v2_put_teacher N"
| "v2_update N Course = v2_put_course N"
| "v2_update N Student = v2_put_student N"
| "v2_update N Test = v2_put_test N"

fun v2_delete :: "(string \<Rightarrow> jsnum) \<Rightarrow> kind \<Rightarrow> string \<Rightarrow> v2_state \<Rightarrow> response \<times> v2_state" where
  "v2_delete N Teacher = v2_delete_teacher N"
| "v2_delete N Course = v2_delete_course N"
| "v2_delete N Student = v2_delete_student N"
| "v2_delete N Test = v2_delete_test N"

section \<open>The terms of the properties\<close>



text \<open>
  The properties an update reads from the body, by kind and variant (variant 1 has no
  \<open>schedule\<close>), and the 404 messages.
\<close>

fun v1_fields :: "kind \<Rightarrow> field list" where
  "v1_fields Teacher = [FirstName, LastName, Email, Department]"
| "v1_fields Course = [Code, Name, TeacherId, Semester, Room]"
| "v1_fields Student = [FirstName, LastName, Grade, StudentNumber, Homeroom]"
| "v1_fields Test = [StudentId, CourseId, TestName, Date, Mark, OutOf, Weight]"

fun v2_fields :: "kind \<Rightarrow> field list" where
  "v2_fields Teacher = [FirstName, LastName, Email, Department]"
| "v2_fields Course = [Code, Name, TeacherId, Semester, Room, Schedule]"
| "v2_fields Student = [FirstName, LastName, Grade, StudentNumber, Homeroom]"
| "v2_fields Test = [StudentId, CourseId, TestName, Date, Mark, OutOf, Weight]"

fun not_found :: "kind \<Rightarrow> string" where
  "not_found Teacher = ''Teacher not found''"
| "not_found Course = ''Course not found''"
| "not_found Student = ''Student not found''"
| "not_found Test = ''Test not found''"

text \<open>The body supplies none of the properties \<open>fs\<close>.\<close>

definition no_fields :: "field list \<Rightarrow> obj \<Rightarrow> bool" where
  "no_fields fs b = list_all (\<lambda>f. get b f = Undefined) fs"



















section \<open>Concrete requests and stores\<close>

text \<open>
  The restriction of \<open>Number\<close> to strings of decimal digits, for running the handlers on
  concrete requests: \<open>Number("12")\<close> is \<open>12\<close>. On every other string it answers \<open>NaN\<close>, which
  is what \<open>Number\<close> answers on the non-numeric strings used below.
\<close>

definition digit_value :: "char \<Rightarrow> nat option" where
  "digit_value c =
     (let k = (of_char c :: nat) in if 48 \<le> k \<and> k \<le> 57 then Some (k - 48) else None)"

fun digits_value :: "nat \<Rightarrow> string \<Rightarrow> nat option" where
  "digits_value acc [] = Some acc"
| "digits_value acc (c # cs) =
     (case digit_value c of None \<Rightarrow> None | Some d \<Rightarrow> digits_value (10 * acc + d) cs)"

definition decimal :: "string \<Rightarrow> jsnum" where
  "decimal s =
     (if s = [] then NaN
      else case digits_value 0 s of None \<Rightarrow> NaN | Some n \<Rightarrow> Fin (of_nat n))"


text \<open>Records, request bodies and stores.\<close>

definition no_docs :: db where
  "no_docs = \<lparr>teachers = [], courses = [], students = [], tests = []\<rparr>"

definition teacher1 :: obj where
  "teacher1 = [(IdK, Num (Fin 1)), (FirstName, Str ''Ada''), (LastName, Str ''Byron''),
               (Email, Str ''ada@school.ca''), (Department, Str ''Math'')]"

definition course1 :: obj where
  "course1 = [(IdK, Num (Fin 1)), (Code, Str ''ICS4U''), (Name, Str ''Computer Science''),
              (TeacherId, Num (Fin 1)), (Semester, Str ''1''), (Room, Str ''204'')]"

definition v1_school :: v1_state where
  "v1_school = v1_start decimal (no_docs\<lparr>teachers := [teacher1], courses := [course1]\<rparr>)"

definition student1 :: obj where
  "student1 = [(IdK, Num (Fin 1)), (FirstName, Str ''Alan''), (LastName, Str ''Kay''),
               (Grade, Num (Fin 12)), (StudentNumber, Str ''S001''), (Homeroom, Str ''12A'')]"

definition v2_school :: v2_state where
  "v2_school =
     \<lparr>store = \<lparr>teachers = [teacher1], courses = [course1], students = [student1], tests = []\<rparr>,
      counters = [(''teachers'', 1), (''courses'', 1), (''students'', 1)]\<rparr>"






section \<open>Basic facts\<close>




lemma findIndex_None: "findIndex p xs = None \<longleftrightarrow> \<not> list_ex p xs"
  by (induction xs) auto

lemma findIndex_Some:
  "findIndex p xs = Some i \<Longrightarrow> i < length xs \<and> p (xs ! i) \<and> (\<forall>j<i. \<not> p (xs ! j))"
proof (induction xs arbitrary: i)
  case Nil
  then show ?case by simp
next
  case (Cons x xs)
  show ?case
  proof (cases "p x")
    case True
    with Cons.prems show ?thesis by simp
  next
    case False
    with Cons.prems obtain k where k: "findIndex p xs = Some k" "i = Suc k"
      by auto
    from Cons.IH [OF k(1)] False k(2) show ?thesis
      by (auto simp: less_Suc_eq_0_disj)
  qed
qed

lemma find_None_list_ex: "find p xs = None \<longleftrightarrow> \<not> list_ex p xs"
  by (induction xs) auto
















lemma findIndex_Some_list_ex: "findIndex p xs = Some i \<Longrightarrow> list_ex p xs"
  using findIndex_None [of p xs] by auto

lemma v1_update_no_fields:
  "no_fields (v1_fields k) b \<Longrightarrow>
   v1_update N k pid b st =
     (if list_ex (has_id (N pid)) (coll k (mem st))
      then fail 400 ''No fields provided to update'' else fail 404 (not_found k), st)"
  by (cases k)
     (auto simp: no_fields_def v1_put_teacher_def v1_put_course_def v1_put_student_def
        v1_put_test_def Let_def findIndex_None dest: findIndex_Some_list_ex
        split: option.splits)

lemma v2_update_no_fields:
  "no_fields (v2_fields k) b \<Longrightarrow>
   v2_update N k pid b st = (fail 400 ''No fields provided to update'', st)"
  by (cases k)
     (auto simp: no_fields_def v2_put_teacher_def v2_put_course_def v2_put_student_def
        v2_put_test_def Let_def)

lemma v3_update_no_fields:
  "no_fields (v2_fields Test) b \<Longrightarrow>
   v3_put_test N oid pid b st =
     (if oid (Str pid) = None then fail 400 ''Invalid test _id''
      else fail 400 ''No fields provided to update'', st)"
  by (auto simp: no_fields_def v3_put_test_def requireObjectId_def Let_def)






lemma no_eq_filter: "list_all (\<lambda>x. get x f \<noteq> v) xs \<Longrightarrow> list_ex (eq_filter f v) xs = False"
  by (induction xs) (auto simp: eq_filter_def)





























lemma find_Some_ex: "list_ex p xs \<Longrightarrow> \<exists>x. find p xs = Some x"
  using find_None_list_ex [of p xs] by auto

































subsection \<open>The same requests in the other variants\<close>

text \<open>
  Variants 2 and 3 answer an average over no tests with \<open>null\<close>; variant 2 refuses to delete
  a teacher that a course references; the other lists of variant 1 send their arrays, and
  those of variant 2 send every document of the collection in ascending order of \<open>id\<close>.
\<close>

lemma v2_average_without_tests:
  assumes "list_ex (eq_filter IdK (Num (N pid))) (courses (store st))"
    and "filter (eq_filter CourseId (Num (N pid))) (tests (store st)) = []"
  shows "v2_course_average N pid st =
           (Reply 200 (One [(CourseId, Num (N pid)), (TestCount, Num (Fin 0)),
                            (Average, Null)]), st)"
  using find_Some_ex [OF assms(1)] assms(2)
  by (auto simp: v2_course_average_def Let_def)

lemma v3_average_without_tests:
  assumes "oid (Str pid) = Some k"
    and "list_ex (eq_filter OidK (ObjId k)) (courses st)"
    and "filter (eq_filter CourseId (ObjId k)) (tests st) = []"
  shows "v3_course_average N oid pid st =
           (Reply 200 (One [(CourseId, Str pid), (TestCount, Num (Fin 0)),
                            (Average, Null)]), st)"
  using assms(1) find_Some_ex [OF assms(2)] assms(3)
  by (auto simp: v3_course_average_def requireObjectId_def Let_def)

lemma v2_delete_teacher_with_course:
  assumes "list_ex (eq_filter TeacherId (Num (N pid))) (courses (store st))"
  shows "v2_delete N Teacher pid st =
           (fail 400
              ''Cannot delete teacher who is assigned to courses. Update/delete courses first.'',
            st)"
  using assms by (simp add: v2_delete_teacher_def)

lemma v1_list_others:
  "v1_list Course st = (Reply 200 (Many (courses (mem st))), st)"
  "v1_list Student st = (Reply 200 (Many (students (mem st))), st)"
  "v1_list Test st = (Reply 200 (Many (tests (mem st))), st)"
  by (simp_all add: v1_get_courses_def v1_get_students_def v1_get_tests_def)

lemma v2_list_sorted:
  "\<exists>xs. v2_list k st = (Reply 200 (Many xs), st) \<and> set xs = set (coll k (store st)) \<and>
        length xs = length (coll k (store st)) \<and>
        sorted (map (\<lambda>d. id_rank (get d IdK)) xs)"
  by (cases k)
     (simp_all add: v2_get_teachers_def v2_get_courses_def v2_get_students_def
        v2_get_tests_def sort_by_id_def)

section \<open>Claims\<close>


text \<open>
  C2 (the code breaks it in variant 1). A teacher that a course references must not be
  deleted. In variant 1 the check is a TODO comment: with teacher 1 and a course of
  teacher 1 stored, \<open>DELETE /teachers/1\<close> answers 200 and removes the teacher, in memory
  and in the file.
\<close>

theorem v1_delete_teacher_with_course:
  "list_ex (\<lambda>c. strict_eq (get c TeacherId) (Num (decimal ''1''))) (courses (mem v1_school)) \<and>
   v1_delete decimal Teacher ''1'' v1_school =
     (Reply 200 (One teacher1),
      v1_school\<lparr>mem := (mem v1_school)\<lparr>teachers := []\<rparr>,
                disk := (disk v1_school)\<lparr>teachers := []\<rparr>\<rparr>)"
  by (simp add: v1_delete_teacher_def v1_school_def v1_start_def no_docs_def course1_def
      teacher1_def has_id_def decimal_def digit_value_def get_def splice1_def Let_def)

text \<open>
  C3 (the code breaks it in variant 1). \<open>list()\<close> must return all stored entities of the
  kind. In variant 1 the line of \<open>GET /teachers\<close> that sends the array is commented out:
  with one teacher stored the handler sends nothing.
\<close>

theorem v1_list_teachers_sends_nothing:
  "teachers (mem v1_school) = [teacher1] \<and> v1_list Teacher v1_school = (NoReply, v1_school)"
  by (simp add: v1_get_teachers_def v1_school_def v1_start_def no_docs_def)




text \<open>
  C5 (amended). An update whose body supplies none of the properties of the kind changes
  nothing, and is answered with the 400 "No fields provided to update" in variant 2 always,
  in variant 1 when a record with the path id exists (the lookup comes first there: without
  such a record the answer is the 404), and in \<open>PUT /tests/:id\<close> of variant 3 when the path
  id is a valid ObjectId (otherwise the answer is the 400 "Invalid test _id").
\<close>

theorem update_without_fields:
  "(no_fields (v1_fields k) b \<longrightarrow>
      v1_update N k pid b st1 =
        (if list_ex (has_id (N pid)) (coll k (mem st1))
         then fail 400 ''No fields provided to update'' else fail 404 (not_found k), st1)) \<and>
   (no_fields (v2_fields k) b \<longrightarrow>
      v2_update N k pid b st2 = (fail 400 ''No fields provided to update'', st2)) \<and>
   (no_fields (v2_fields Test) b \<longrightarrow>
      v3_put_test N oid pid b st3 =
        (if oid (Str pid) = None then fail 400 ''Invalid test _id''
         else fail 400 ''No fields provided to update'', st3))"
  using v1_update_no_fields [of k b N pid st1] v2_update_no_fields [of k b N pid st2]
    v3_update_no_fields [of b N oid pid st3]
  by (intro conjI impI)

theorem update_without_fields_witness:
  "no_fields (v1_fields Teacher) [] \<and>
   v1_update decimal Teacher ''1'' [] v1_school = (fail 400 ''No fields provided to update'', v1_school) \<and>
   v2_update decimal Teacher ''1'' [] v2_school = (fail 400 ''No fields provided to update'', v2_school)"
proof -
  have e: "no_fields (v1_fields Teacher) []" "no_fields (v2_fields Teacher) []"
    by (simp_all add: no_fields_def get_def)
  have x: "list_ex (has_id (decimal ''1'')) (coll Teacher (mem v1_school))"
    by (simp add: v1_school_def v1_start_def no_docs_def teacher1_def has_id_def decimal_def
        digit_value_def get_def)
  note inst = update_without_fields [of Teacher "[]" decimal "''1''" v1_school v2_school]
  from inst [THEN conjunct1] e(1) x
  have a: "v1_update decimal Teacher ''1'' [] v1_school =
             (fail 400 ''No fields provided to update'', v1_school)"
    by simp
  from inst [THEN conjunct2, THEN conjunct1] e(2)
  have b: "v2_update decimal Teacher ''1'' [] v2_school =
             (fail 400 ''No fields provided to update'', v2_school)"
    by simp
  from e(1) a b show ?thesis by simp
qed

text \<open>
  C5 as stated fails in variant 1: with no teacher 9 stored, \<open>PUT /teachers/9\<close> with an
  empty body is answered with the 404, not with a validation error.
\<close>

theorem update_without_fields_not_found:
  "no_fields (v1_fields Teacher) [] \<and>
   v1_update decimal Teacher ''9'' [] v1_school = (fail 404 ''Teacher not found'', v1_school) \<and>
   fail 404 ''Teacher not found'' \<noteq> fail 400 ''No fields provided to update''"
  by (simp add: no_fields_def v1_put_teacher_def v1_school_def v1_start_def no_docs_def
      teacher1_def has_id_def decimal_def digit_value_def get_def fail_def Let_def)














end
